theory Spec2Isabelle
  imports Main
begin

section \<open>utils/cookie.ts\<close>

text \<open>
  JavaScript's \<open>String.prototype.split\<close> with a separator string: the pieces between
  the leftmost, non-overlapping occurrences of the separator; a string without the
  separator is a single piece, and so is the empty string. Both separators of the source
  (\<open>"; "\<close> and \<open>"="\<close>) are non-empty; the empty separator, which JavaScript treats
  as "split into characters", is not used by the source and is not modelled.
\<close>

fun js_split :: "string \<Rightarrow> string \<Rightarrow> string list" where
  "js_split sep [] = [[]]"
| "js_split sep (c # s) =
     (if sep \<noteq> [] \<and> take (length sep) (c # s) = sep
      then [] # js_split sep (drop (length sep) (c # s))
      else (case js_split sep s of [] \<Rightarrow> [[c]] | p # ps \<Rightarrow> (c # p) # ps))"

text \<open>\<open>Array.prototype.join\<close>: the empty array joins to the empty string.\<close>

fun js_join :: "string \<Rightarrow> string list \<Rightarrow> string" where
  "js_join sep [] = []"
| "js_join sep [x] = x"
| "js_join sep (x # y # ys) = x @ sep @ js_join sep (y # ys)"

text \<open>
  \<open>Object.fromEntries\<close>: the entries are set in order, so a later entry with the same
  key overrides an earlier one. The map holds the object's own properties.
\<close>

definition fromEntries :: "(string \<times> string) list \<Rightarrow> (string \<rightharpoonup> string)" where
  "fromEntries kvs = foldl (\<lambda>m (k, v). m(k \<mapsto> v)) Map.empty kvs"

text \<open>
  The callback of \<open>map\<close> in \<open>parseCookies\<close>:
  \<open>const [key, ...valueArr] = c.split("="); const value = valueArr.join("=")\<close>.
  \<open>split\<close> never returns the empty array; were it to, \<open>key\<close> would be
  \<open>undefined\<close>, which \<open>Object.fromEntries\<close> turns into the property name
  \<open>"undefined"\<close>.
\<close>

definition cookiePair :: "string \<Rightarrow> string \<times> string" where
  "cookiePair c =
     (case js_split ''='' c of
        [] \<Rightarrow> (''undefined'', js_join ''='' [])
      | key # valueArr \<Rightarrow> (key, js_join ''='' valueArr))"

text \<open>
  \<open>parseCookies(cookieHeader)\<close>. The argument is a JavaScript value: \<open>None\<close> is
  \<open>undefined\<close> (a missing header). \<open>!cookieHeader\<close> holds for \<open>undefined\<close>
  and for the empty string.
\<close>

definition parseCookies :: "string option \<Rightarrow> (string \<rightharpoonup> string)" where
  "parseCookies cookieHeader =
     (case cookieHeader of
        None \<Rightarrow> Map.empty
      | Some h \<Rightarrow>
          if h = [] then Map.empty
          else fromEntries (map cookiePair (js_split ''; '' h)))"

text \<open>
  \<open>getCookie(cookieHeader, cookieName)\<close> is \<open>cookies[cookieName]\<close>; \<open>None\<close> is
  \<open>undefined\<close>. The model reads the object's own properties: \<open>cookieName\<close> is
  taken not to be the name of a member of \<open>Object.prototype\<close> (the configured name
  is \<open>authToken\<close> unless the environment overrides it).
\<close>

definition getCookie :: "string option \<Rightarrow> string \<Rightarrow> string option" where
  "getCookie cookieHeader cookieName = parseCookies cookieHeader cookieName"

section \<open>The environment of the services\<close>

text \<open>
  Everything the services reach outside their own code is a field of the \<open>world\<close>: the
  clock, the UUID generator, the two DynamoDB tables, the API Gateway management
  endpoint, the JWKS endpoint of the identity provider, and the module-level variables
  of the source (\<open>apiGateway\<close>, \<open>jwksCache\<close>, \<open>jwksLastFetch\<close>).
  An \<open>async\<close> function is a function from the world to its outcome and the world
  after it: \<open>Inr\<close> a returned value, \<open>Inl\<close> a thrown exception (a rejected promise).
\<close>

datatype exn =
    Error string                      \<comment> \<open>\<open>new Error(message)\<close>\<close>
  | StoreException                    \<comment> \<open>whatever the DynamoDB client throws\<close>
  | NetworkException                  \<comment> \<open>whatever \<open>axios.get\<close> throws\<close>
  | JwkToPemException                 \<comment> \<open>whatever \<open>jwkToPem\<close> throws\<close>
  | TypeError                         \<comment> \<open>a property read on \<open>null\<close>\<close>
  | TransportException string "nat option"
      \<comment> \<open>what \<open>ApiGatewayManagementApiClient.send\<close> throws: \<open>error.name\<close> and
          \<open>error.$metadata?.httpStatusCode\<close>\<close>

datatype json = JString string | JNumber int | JObject "(string \<times> json) list"

datatype store_request =
    PutItem string string             \<comment> \<open>table, key of the item\<close>
  | DeleteItem string string          \<comment> \<open>table, key\<close>
  | Query string string string        \<comment> \<open>table, index, partition key value\<close>

record connection =
  connectionId :: string
  timestamp :: int
  ttl :: int
  userData :: "(string \<times> string option) list"
    \<comment> \<open>an object literal; \<open>None\<close> is a property whose value is \<open>undefined\<close>\<close>

record message =
  msg_id :: string
  msg_connectionId :: string
  content :: string
  msg_timestamp :: int
  msg_ttl :: int
  sessionId :: string
  metadata :: "(string \<times> string) list option"

record jwk =
  kid :: string
  material :: string

record world =
  clock :: int
    \<comment> \<open>\<open>Date.now()\<close>, in milliseconds\<close>
  uuids :: "nat \<Rightarrow> string"
  uuidsTaken :: nat
    \<comment> \<open>\<open>uuidv4()\<close> returns \<open>uuids\<close> at \<open>uuidsTaken\<close> and moves on\<close>
  connections :: "string \<rightharpoonup> connection"
    \<comment> \<open>the connections table, keyed by \<open>connectionId\<close> (its HASH key)\<close>
  messages :: "message list"
    \<comment> \<open>the rows of the messages table, in the order in which \<open>sessionId-index\<close>
        yields them\<close>
  indexPosition :: "message \<Rightarrow> nat"
    \<comment> \<open>where the store files a new row in that order: the store's choice, since the
        index has a HASH key only (template.yaml)\<close>
  storeFaults :: "bool list"
    \<comment> \<open>the outcomes of the store requests to come, in order: \<open>True\<close> is a request
        that throws; past the end of the list every request succeeds\<close>
  storeLog :: "store_request list"
    \<comment> \<open>the requests sent to the store so far\<close>
  postToConnection :: "string \<Rightarrow> string \<Rightarrow> json \<Rightarrow> exn option"
    \<comment> \<open>what the gateway at an endpoint answers to a \<open>PostToConnectionCommand\<close> for a
        connection id and a payload: \<open>None\<close> is success\<close>
  apiGateway :: "string option"
    \<comment> \<open>the cached client, by its endpoint; \<open>None\<close> is \<open>null\<close>\<close>
  jwksEndpoint :: "jwk list option"
    \<comment> \<open>what \<open>axios.get(JWK_URL)\<close> answers (\<open>response.data.keys\<close>); \<open>None\<close> is a
        request that throws\<close>
  fetches :: nat
    \<comment> \<open>the number of requests sent to the JWKS endpoint so far\<close>
  jwksCache :: "jwk list option"
  jwksLastFetch :: int

record config =
  TABLE_NAME :: string
  messagesTableName :: string
  region :: string
  userPoolId :: string
  cookieName :: string
  jwksCacheTTL :: int

type_synonym 'a io = "world \<Rightarrow> (exn + 'a) \<times> world"

definition resolve :: "'a \<Rightarrow> 'a io" where
  "resolve x w = (Inr x, w)"

definition reject :: "exn \<Rightarrow> 'a io" where
  "reject e w = (Inl e, w)"

text \<open>\<open>const x = await m; f(x)\<close>: an exception of \<open>m\<close> skips \<open>f\<close>.\<close>

definition thenDo :: "'a io \<Rightarrow> ('a \<Rightarrow> 'b io) \<Rightarrow> 'b io" where
  "thenDo m f w = (case m w of (Inl e, w') \<Rightarrow> (Inl e, w') | (Inr x, w') \<Rightarrow> f x w')"

text \<open>\<open>try { m } catch (error) { h(error) }\<close>: the handler runs in the world \<open>m\<close> left.\<close>

definition tryCatch :: "'a io \<Rightarrow> (exn \<Rightarrow> 'a io) \<Rightarrow> 'a io" where
  "tryCatch m h w = (case m w of (Inl e, w') \<Rightarrow> h e w' | (Inr x, w') \<Rightarrow> (Inr x, w'))"

definition Date_now :: "int io" where
  "Date_now w = (Inr (clock w), w)"

definition uuidv4 :: "string io" where
  "uuidv4 w = (Inr (uuids w (uuidsTaken w)), w\<lparr>uuidsTaken := Suc (uuidsTaken w)\<rparr>)"

section \<open>services/dynamoDbClient.ts\<close>

text \<open>
  One request to the store: it is logged, it takes the next scripted outcome, and when it
  succeeds it has its effect on the tables and returns its result.
\<close>

definition storeSend :: "store_request \<Rightarrow> (world \<Rightarrow> 'a \<times> world) \<Rightarrow> 'a io" where
  "storeSend req effect w =
     (let w1 = w\<lparr>storeLog := storeLog w @ [req]\<rparr> in
      case storeFaults w of
        [] \<Rightarrow> (case effect w1 of (x, w2) \<Rightarrow> (Inr x, w2))
      | failing # later \<Rightarrow>
          if failing then (Inl StoreException, w1\<lparr>storeFaults := later\<rparr>)
          else (case effect (w1\<lparr>storeFaults := later\<rparr>) of (x, w2) \<Rightarrow> (Inr x, w2)))"

text \<open>
  \<open>putItem\<close> and \<open>deleteItem\<close> on the connections table. \<open>PutItem\<close> replaces the
  whole row that has the item's key; \<open>DeleteItem\<close> of a key that has no row succeeds.
  A row is the item object handed to the document client.
\<close>

definition putItem_connection :: "string \<Rightarrow> connection \<Rightarrow> unit io" where
  "putItem_connection tableName item =
     storeSend (PutItem tableName (connectionId item))
       (\<lambda>w. ((), w\<lparr>connections := (connections w)(connectionId item \<mapsto> item)\<rparr>))"

definition deleteItem_connection :: "string \<Rightarrow> string \<Rightarrow> unit io" where
  "deleteItem_connection tableName key =
     storeSend (DeleteItem tableName key)
       (\<lambda>w. ((), w\<lparr>connections := (connections w)(key := None)\<rparr>))"

definition insertAt :: "nat \<Rightarrow> 'a \<Rightarrow> 'a list \<Rightarrow> 'a list" where
  "insertAt n x xs = take n xs @ [x] @ drop n xs"

text \<open>\<open>putItem\<close> on the messages table, whose HASH key is \<open>id\<close>.\<close>

definition putItem_message :: "string \<Rightarrow> message \<Rightarrow> unit io" where
  "putItem_message tableName item =
     storeSend (PutItem tableName (msg_id item))
       (\<lambda>w. ((), w\<lparr>messages :=
          insertAt (indexPosition w item) item
            (filter (\<lambda>m. msg_id m \<noteq> msg_id item) (messages w))\<rparr>))"

text \<open>
  \<open>query\<close> on \<open>sessionId-index\<close> with \<open>ScanIndexForward: true\<close> and a
  \<open>Limit\<close>. template.yaml declares the index with the key schema
  \<open>sessionId: HASH\<close> and no RANGE key, so there is no sort key for
  \<open>ScanIndexForward\<close> to order by: the rows with the partition key come in the index's
  own order, the first \<open>Limit\<close> of them. The store refuses a \<open>Limit\<close> of 0.
\<close>

definition query_sessionId_index :: "string \<Rightarrow> string \<Rightarrow> nat \<Rightarrow> message list io" where
  "query_sessionId_index tableName sid limit =
     (if limit = 0 then
        (\<lambda>w. (Inl StoreException,
               w\<lparr>storeLog := storeLog w @ [Query tableName ''sessionId-index'' sid]\<rparr>))
      else
        storeSend (Query tableName ''sessionId-index'' sid)
          (\<lambda>w. (take limit (filter (\<lambda>m. sessionId m = sid) (messages w)), w)))"

section \<open>services/connectionService.ts\<close>

definition addConnection ::
  "config \<Rightarrow> string \<Rightarrow> (string \<times> string option) list \<Rightarrow> unit io" where
  "addConnection C cid ud =
     thenDo Date_now (\<lambda>ts.
       let connection =
             \<lparr>connectionId = cid, timestamp = ts, ttl = ts div 1000 + 60 * 60 * 2,
              userData = ud\<rparr>
       in tryCatch (putItem_connection (TABLE_NAME C) connection)
            (\<lambda>error. reject (Error ''Failed to add connection'')))"

definition removeConnection :: "config \<Rightarrow> string \<Rightarrow> unit io" where
  "removeConnection C cid =
     tryCatch (deleteItem_connection (TABLE_NAME C) cid)
       (\<lambda>error. reject (Error ''Failed to remove connection''))"

section \<open>services/messageService.ts\<close>

text \<open>
  An API Gateway WebSocket event, by the fields the code reads:
  \<open>event.requestContext.connectionId\<close>, \<open>.domainName\<close>, \<open>.stage\<close> and
  \<open>event.headers\<close>. The gateway supplies \<open>requestContext\<close> and \<open>headers\<close>
  with every event.
\<close>

record event =
  requestContext_connectionId :: string
  requestContext_domainName :: string
  requestContext_stage :: string
  headers :: "string \<rightharpoonup> string"

definition MESSAGE_TTL_SECONDS :: int where
  "MESSAGE_TTL_SECONDS = 60 * 60 * 24 * 30"

definition getApiGateway :: "event \<Rightarrow> string io" where
  "getApiGateway ev w =
     (case apiGateway w of
        None \<Rightarrow>
          (let endpoint =
                 ''https://'' @ requestContext_domainName ev @ ''/'' @ requestContext_stage ev
           in (Inr endpoint, w\<lparr>apiGateway := Some endpoint\<rparr>))
      | Some client \<Rightarrow> (Inr client, w))"

definition saveMessage ::
  "config \<Rightarrow> string \<Rightarrow> string \<Rightarrow> string \<Rightarrow> (string \<times> string) list option \<Rightarrow> message io"
where
  "saveMessage C cid text sid md =
     thenDo Date_now (\<lambda>ms.
     let now = ms div 1000 in
     thenDo uuidv4 (\<lambda>uuid.
     thenDo Date_now (\<lambda>ts.
     let message =
           \<lparr>msg_id = uuid, msg_connectionId = cid, content = text, msg_timestamp = ts,
            msg_ttl = now + MESSAGE_TTL_SECONDS, sessionId = sid, metadata = md\<rparr>
     in thenDo (putItem_message (messagesTableName C) message) (\<lambda>_. resolve message))))"

definition getSessionMessages :: "config \<Rightarrow> string \<Rightarrow> nat \<Rightarrow> message list io" where
  "getSessionMessages C sid limit = query_sessionId_index (messagesTableName C) sid limit"

text \<open>The condition of the \<open>catch\<close> block of \<open>sendToClient\<close>.\<close>

fun isGone :: "exn \<Rightarrow> bool" where
  "isGone (TransportException name status) = (name = ''GoneException'' \<or> status = Some 410)"
| "isGone _ = False"

definition apiGatewaySend :: "string \<Rightarrow> string \<Rightarrow> json \<Rightarrow> unit io" where
  "apiGatewaySend client cid payload w =
     (case postToConnection w client cid payload of
        None \<Rightarrow> (Inr (), w)
      | Some error \<Rightarrow> (Inl error, w))"

definition sendToClient :: "config \<Rightarrow> event \<Rightarrow> string \<Rightarrow> json \<Rightarrow> bool io" where
  "sendToClient C ev cid payload =
     tryCatch
       (thenDo (getApiGateway ev) (\<lambda>apiGatewayInstance.
        thenDo (apiGatewaySend apiGatewayInstance cid payload) (\<lambda>_.
        resolve True)))
       (\<lambda>error.
          if isGone error
          then thenDo (removeConnection C cid) (\<lambda>_. resolve False)
          else resolve False)"

text \<open>
  The payload \<open>persistAndSendMessage\<close> sends:
  \<open>{messageId: message.id, content, timestamp: message.timestamp, ...(metadata && {metadata})}\<close>.
\<close>

definition messagePayload :: "message \<Rightarrow> string \<Rightarrow> (string \<times> string) list option \<Rightarrow> json" where
  "messagePayload m text md =
     JObject
       ([(''messageId'', JString (msg_id m)), (''content'', JString text),
         (''timestamp'', JNumber (msg_timestamp m))]
        @ (case md of
             None \<Rightarrow> []
           | Some kvs \<Rightarrow> [(''metadata'', JObject (map (\<lambda>(k, v). (k, JString v)) kvs))]))"

definition persistAndSendMessage ::
  "config \<Rightarrow> event \<Rightarrow> string \<Rightarrow> string \<Rightarrow> string \<Rightarrow> (string \<times> string) list option
     \<Rightarrow> message option io"
where
  "persistAndSendMessage C ev cid text sid md =
     tryCatch
       (thenDo (saveMessage C cid text sid md) (\<lambda>message.
        thenDo (sendToClient C ev cid (messagePayload message text md)) (\<lambda>success.
        resolve (if success then Some message else None))))
       (\<lambda>error. resolve None)"

section \<open>plugins/auth.ts\<close>

text \<open>
  The libraries \<open>jsonwebtoken\<close> and \<open>jwk-to-pem\<close> are parameters of the model:
  \<open>decode\<close> is \<open>jwt.decode(token, {complete: true})\<close> (\<open>None\<close> is \<open>null\<close>), of
  whose result the code reads \<open>header.kid\<close>; \<open>jwkToPem\<close> returns \<open>None\<close> where
  the library throws; \<open>verify\<close> is \<open>jwt.verify(token, pem, {issuer, algorithms})\<close>,
  which returns the payload or throws one of the library's errors. A payload is the
  object of the token's claims.
\<close>

datatype jwt_error = TokenExpiredError | NotBeforeError | JsonWebTokenError string

record decoded_token =
  header_kid :: "string option"

type_synonym claims = "(string \<times> string) list"

record jwt_library =
  decode :: "string \<Rightarrow> decoded_token option"
  jwkToPem :: "jwk \<Rightarrow> string option"
  verify :: "string \<Rightarrow> string \<Rightarrow> string \<Rightarrow> string list \<Rightarrow> jwt_error + claims"

definition axios_get_JWK_URL :: "jwk list io" where
  "axios_get_JWK_URL w =
     (case jwksEndpoint w of
        None \<Rightarrow> (Inl NetworkException, w\<lparr>fetches := Suc (fetches w)\<rparr>)
      | Some keys \<Rightarrow> (Inr keys, w\<lparr>fetches := Suc (fetches w)\<rparr>))"

text \<open>
  \<open>getJwks\<close>: \<open>!jwksCache\<close> holds for \<open>null\<close> only (an empty array is truthy). The
  function returns the variable \<open>jwksCache\<close>.
\<close>

definition getJwks :: "config \<Rightarrow> jwk list option io" where
  "getJwks C =
     thenDo Date_now (\<lambda>now.
     thenDo
       (\<lambda>w. if jwksCache w = None \<or> now - jwksLastFetch w > jwksCacheTTL C
            then tryCatch
                   (thenDo axios_get_JWK_URL (\<lambda>keys w'.
                      (Inr (), w'\<lparr>jwksCache := Some keys, jwksLastFetch := now\<rparr>)))
                   (\<lambda>error. reject (Error ''Failed to retrieve JWKs'')) w
            else (Inr (), w))
       (\<lambda>_ w. (Inr (jwksCache w), w)))"

definition issuer :: "config \<Rightarrow> string" where
  "issuer C = ''https://cognito-idp.'' @ region C @ ''.amazonaws.com/'' @ userPoolId C"

definition validateToken :: "config \<Rightarrow> jwt_library \<Rightarrow> string \<Rightarrow> claims io" where
  "validateToken C L token =
     (case (case decode L token of None \<Rightarrow> None | Some d \<Rightarrow> header_kid d) of
        None \<Rightarrow> reject (Error ''Invalid token format'')
      | Some tokenKid \<Rightarrow>
          if tokenKid = [] then reject (Error ''Invalid token format'')
          else
            thenDo (getJwks C) (\<lambda>jwks.
              case jwks of
                None \<Rightarrow> reject TypeError
              | Some keys \<Rightarrow>
                  (case find (\<lambda>k. kid k = tokenKid) keys of
                     None \<Rightarrow> reject (Error ''Invalid token signature: Key ID not found'')
                   | Some key \<Rightarrow>
                       (case jwkToPem L key of
                          None \<Rightarrow> reject JwkToPemException
                        | Some pem \<Rightarrow>
                            (case verify L token pem (issuer C) [''RS256''] of
                               Inl error \<Rightarrow> reject (Error ''Invalid token'')
                             | Inr verifiedToken \<Rightarrow> resolve verifiedToken)))))"

definition authenticateFromCookie :: "config \<Rightarrow> jwt_library \<Rightarrow> string \<Rightarrow> claims option io" where
  "authenticateFromCookie C L cookieValue =
     (if cookieValue = [] then resolve None
      else tryCatch (thenDo (validateToken C L cookieValue) (\<lambda>payload. resolve (Some payload)))
             (\<lambda>error. resolve None))"

section \<open>middleware/webSocketAuth.ts\<close>

text \<open>
  What a handler returns to the gateway. \<open>JSON_stringify\<close> stands for the string
  \<open>JSON.stringify\<close> makes of an object with the given string properties.
\<close>

datatype body = Plain string | JSON_stringify "(string \<times> string) list"

record response =
  statusCode :: nat
  body :: "body option"
  user :: "claims option"
  requestId :: "string option"

text \<open>\<open>event.headers["x-request-id"] || uuidv4()\<close>: the right operand is evaluated only
  when the header is missing or empty.\<close>

definition requestIdFrom :: "event \<Rightarrow> string io" where
  "requestIdFrom ev =
     (case headers ev ''x-request-id'' of
        None \<Rightarrow> uuidv4
      | Some h \<Rightarrow> if h = [] then uuidv4 else resolve h)"

text \<open>\<open>event.headers.Cookie || event.headers.cookie\<close>\<close>

definition cookieHeaderOf :: "event \<Rightarrow> string option" where
  "cookieHeaderOf ev =
     (case headers ev ''Cookie'' of
        None \<Rightarrow> headers ev ''cookie''
      | Some h \<Rightarrow> if h = [] then headers ev ''cookie'' else Some h)"

definition rejection :: "nat \<Rightarrow> string \<Rightarrow> response" where
  "rejection status text =
     \<lparr>statusCode = status, body = Some (JSON_stringify [(''message'', text)]),
      user = None, requestId = None\<rparr>"

definition webSocketAuthMiddleware :: "config \<Rightarrow> jwt_library \<Rightarrow> event \<Rightarrow> response io" where
  "webSocketAuthMiddleware C L ev =
     (let cid = requestContext_connectionId ev in
      tryCatch
        (thenDo (requestIdFrom ev) (\<lambda>rid.
           let cookieHeader = cookieHeaderOf ev in
           if cookieHeader = None \<or> cookieHeader = Some [] then
             thenDo (removeConnection C cid) (\<lambda>_.
             resolve (rejection 401 ''Missing authentication token''))
           else
             (let token = getCookie cookieHeader (cookieName C) in
              case token of
                None \<Rightarrow>
                  thenDo (removeConnection C cid) (\<lambda>_.
                  resolve (rejection 401 ''Missing authentication token''))
              | Some t \<Rightarrow>
                  if t = [] then
                    thenDo (removeConnection C cid) (\<lambda>_.
                    resolve (rejection 401 ''Missing authentication token''))
                  else
                    thenDo (authenticateFromCookie C L t) (\<lambda>authenticated.
                      case authenticated of
                        None \<Rightarrow>
                          thenDo (removeConnection C cid) (\<lambda>_.
                          resolve (rejection 401 ''Invalid authentication token''))
                      | Some payload \<Rightarrow>
                          thenDo
                            (addConnection C cid
                               [(''requestId'', Some rid), (''userId'', map_of payload ''sub'')])
                            (\<lambda>_.
                          resolve
                            \<lparr>statusCode = 200, body = None, user = Some payload,
                             requestId = Some rid\<rparr>)))))
        (\<lambda>error.
           thenDo (removeConnection C cid) (\<lambda>_.
           resolve (rejection 500 ''Authentication failed''))))"

section \<open>plugins/webSocketPlugin.ts\<close>

definition plain :: "nat \<Rightarrow> string \<Rightarrow> response" where
  "plain status text =
     \<lparr>statusCode = status, body = Some (Plain text), user = None, requestId = None\<rparr>"

definition handleConnect :: "config \<Rightarrow> event \<Rightarrow> response io" where
  "handleConnect C ev =
     (let cid = requestContext_connectionId ev in
      thenDo (requestIdFrom ev) (\<lambda>rid.
        tryCatch
          (thenDo (addConnection C cid [(''requestId'', Some rid)]) (\<lambda>_.
           resolve (plain 200 ''Connected'')))
          (\<lambda>error. resolve (plain 500 ''Connection failed''))))"

definition handleDisconnect :: "config \<Rightarrow> event \<Rightarrow> response io" where
  "handleDisconnect C ev =
     (let cid = requestContext_connectionId ev in
      tryCatch
        (thenDo (removeConnection C cid) (\<lambda>_. resolve (plain 200 ''Disconnected'')))
        (\<lambda>error. resolve (plain 500 ''Disconnection failed'')))"

section \<open>utils/errorHandler.ts\<close>

record app_error =
  err_name :: string
  err_message :: string
  err_statusCode :: nat
  errorCode :: string
  socketId :: "string option"

definition AuthError :: "string \<Rightarrow> string \<Rightarrow> string option \<Rightarrow> app_error" where
  "AuthError text ecode sid =
     \<lparr>err_name = ''AuthError'', err_message = text, err_statusCode = 401,
      errorCode = ecode, socketId = sid\<rparr>"

definition RateLimitError :: "string \<Rightarrow> string option \<Rightarrow> app_error" where
  "RateLimitError text sid =
     \<lparr>err_name = ''RateLimitError'', err_message = text, err_statusCode = 429,
      errorCode = ''RATE_LIMIT_EXCEEDED'', socketId = sid\<rparr>"

text \<open>\<open>String.prototype.includes\<close>: the argument occurs somewhere in the string.\<close>

fun js_includes :: "string \<Rightarrow> string \<Rightarrow> bool" where
  "js_includes [] sub = (sub = [])"
| "js_includes (c # s) sub = (take (length sub) (c # s) = sub \<or> js_includes s sub)"

text \<open>\<open>a || b\<close> on a string that may be \<open>undefined\<close>: \<open>b\<close> when \<open>a\<close> is
  \<open>undefined\<close> or empty.\<close>

definition orElse :: "string option \<Rightarrow> string \<Rightarrow> string" where
  "orElse a b = (case a of None \<Rightarrow> b | Some s \<Rightarrow> if s = [] then b else s)"

text \<open>The argument \<open>error: any\<close> of \<open>handleAuthError\<close>, by the two properties read.\<close>

record thrown =
  thrown_message :: "string option"
  thrown_code :: "string option"

definition handleAuthError :: "thrown \<Rightarrow> string option \<Rightarrow> app_error" where
  "handleAuthError error sid =
     (let errorMessage = orElse (thrown_message error) ''Authentication failed'';
          ecode = orElse (thrown_code error) ''AUTH_ERROR''
      in if js_includes errorMessage ''token expired'' then
           AuthError ''Your session has expired. Please reconnect.'' ''TOKEN_EXPIRED'' sid
         else if js_includes errorMessage ''invalid token'' then
           AuthError ''Invalid authentication token.'' ''INVALID_TOKEN'' sid
         else if js_includes errorMessage ''unauthorized'' then
           AuthError ''Unauthorized access.'' ''UNAUTHORIZED'' sid
         else if js_includes errorMessage ''rate limit'' then
           RateLimitError ''Too many authentication attempts. Please try again later.'' sid
         else AuthError errorMessage ecode sid)"

section \<open>Example inputs\<close>

text \<open>
  Concrete inputs at which the theorems below are instantiated: the default
  configuration, a library that knows three tokens, connect events that carry a token in
  the \<open>authToken\<close> cookie, and a world whose tables are empty, whose store and gateway
  answer every request, and whose JWKS endpoint serves the key \<open>k1\<close>.
\<close>

definition exampleConfig :: config where
  "exampleConfig =
     \<lparr>TABLE_NAME = ''socket-connections'', messagesTableName = ''Messages'',
      region = ''us-east-1'', userPoolId = ''pool'', cookieName = ''authToken'',
      jwksCacheTTL = 86400000\<rparr>"

definition exampleLibrary :: jwt_library where
  "exampleLibrary =
     \<lparr>decode = (\<lambda>token.
        if token = ''good'' \<or> token = ''expired'' then Some \<lparr>header_kid = Some ''k1''\<rparr>
        else if token = ''rotated'' then Some \<lparr>header_kid = Some ''k2''\<rparr>
        else None),
      jwkToPem = (\<lambda>key. Some (material key)),
      verify = (\<lambda>token pem iss algs.
        if token = ''good'' then Inr [(''sub'', ''u1'')]
        else if token = ''expired'' then Inl TokenExpiredError
        else Inl (JsonWebTokenError ''invalid signature''))\<rparr>"

definition connectEvent :: "string \<Rightarrow> event" where
  "connectEvent token =
     \<lparr>requestContext_connectionId = ''c1'', requestContext_domainName = ''example.com'',
      requestContext_stage = ''dev'',
      headers = [''cookie'' \<mapsto> ''theme=dark; authToken='' @ token]\<rparr>"

definition exampleWorld :: world where
  "exampleWorld =
     \<lparr>clock = 1700000000000, uuids = (\<lambda>n. replicate (Suc n) CHR ''u''), uuidsTaken = 0,
      connections = Map.empty, messages = [], indexPosition = (\<lambda>m. 0),
      storeFaults = [], storeLog = [], postToConnection = (\<lambda>client cid payload. None),
      apiGateway = None, jwksEndpoint = Some [\<lparr>kid = ''k1'', material = ''pem1''\<rparr>],
      fetches = 0, jwksCache = None, jwksLastFetch = 0\<rparr>"

text \<open>
  A gateway that reports the connection \<open>c1\<close> as gone, a gateway that refuses every
  post with an error that is not a gone signal, the example world after
  \<open>handleConnect\<close> has registered \<open>c1\<close>, and the example world after two messages
  of session \<open>s1\<close> were saved one second apart (the store of the example world files
  every new row at the front of the index's order).
\<close>

definition goneAnswer :: "string \<Rightarrow> string \<Rightarrow> json \<Rightarrow> exn option" where
  "goneAnswer client cid payload =
     (if cid = ''c1'' then Some (TransportException ''GoneException'' (Some 410)) else None)"

definition throttledAnswer :: "string \<Rightarrow> string \<Rightarrow> json \<Rightarrow> exn option" where
  "throttledAnswer client cid payload = Some (TransportException ''LimitExceededException'' (Some 429))"

definition registeredWorld :: world where
  "registeredWorld = snd (handleConnect exampleConfig (connectEvent ''good'') exampleWorld)"

definition twoMessagesWorld :: world where
  "twoMessagesWorld =
     snd (saveMessage exampleConfig ''c1'' ''second'' ''s1'' None
            ((snd (saveMessage exampleConfig ''c1'' ''first'' ''s1'' None exampleWorld))
               \<lparr>clock := 1700000001000\<rparr>))"

section \<open>Unfolding rules\<close>

lemmas io_defs = resolve_def reject_def thenDo_def tryCatch_def Date_now_def uuidv4_def storeSend_def
  putItem_connection_def deleteItem_connection_def putItem_message_def query_sessionId_index_def insertAt_def
lemmas svc_defs = addConnection_def removeConnection_def getApiGateway_def saveMessage_def getSessionMessages_def
  apiGatewaySend_def sendToClient_def messagePayload_def persistAndSendMessage_def axios_get_JWK_URL_def
  getJwks_def issuer_def validateToken_def authenticateFromCookie_def requestIdFrom_def cookieHeaderOf_def
  rejection_def webSocketAuthMiddleware_def plain_def handleConnect_def handleDisconnect_def MESSAGE_TTL_SECONDS_def
lemmas cookie_defs = getCookie_def parseCookies_def cookiePair_def fromEntries_def
lemmas ex_defs = exampleConfig_def exampleLibrary_def connectEvent_def exampleWorld_def
lemmas eval_defs = io_defs svc_defs cookie_defs ex_defs Let_def

section \<open>Properties of cookie parsing\<close>

lemma js_split_not_Nil: "js_split sep s \<noteq> []"
  by (induction s) (auto split: list.splits)

lemma fromEntries_map_of: "fromEntries kvs = map_of (rev kvs)"
proof (induction kvs rule: rev_induct)
  case Nil
  show ?case by (simp add: fromEntries_def)
next
  case (snoc kv kvs)
  obtain k v where kv: "kv = (k, v)" by (cases kv)
  have "fromEntries (kvs @ [kv]) = (fromEntries kvs)(k \<mapsto> v)"
    by (simp add: fromEntries_def kv)
  then show ?case by (simp add: snoc.IH kv)
qed

lemma js_join_Cons_Cons: "js_join sep ((c # p) # ps) = c # js_join sep (p # ps)"
  by (cases ps) simp_all

lemma js_join_Nil_Cons: "xs \<noteq> [] \<Longrightarrow> js_join sep ([] # xs) = sep @ js_join sep xs"
  by (cases xs) simp_all

lemma js_join_js_split: "js_join sep (js_split sep s) = s"
proof (induction sep s rule: js_split.induct)
  case (1 sep)
  show ?case by simp
next
  case (2 sep c s)
  show ?case
  proof (cases "sep \<noteq> [] \<and> take (length sep) (c # s) = sep")
    case True
    then have "js_join sep (js_split sep (c # s)) = sep @ drop (length sep) (c # s)"
      using 2(1) by (simp add: js_join_Nil_Cons js_split_not_Nil)
    also have "\<dots> = take (length sep) (c # s) @ drop (length sep) (c # s)"
      using True by simp
    finally show ?thesis by simp
  next
    case False
    obtain p ps where sp: "js_split sep s = p # ps"
      using js_split_not_Nil [of sep s] by (cases "js_split sep s") auto
    have eq: "js_split sep (c # s) = (c # p) # ps"
      using False sp by auto
    have "js_join sep ((c # p) # ps) = c # js_join sep (js_split sep s)"
      unfolding sp by (rule js_join_Cons_Cons)
    also have "js_join sep (js_split sep s) = s"
      by (rule 2(2) [OF False])
    finally show ?thesis unfolding eq .
  qed
qed

lemma js_split_char_hd:
  "\<exists>rest. js_split [ch] s = takeWhile (\<lambda>x. x \<noteq> ch) s # rest"
proof (induction s)
  case Nil
  show ?case by simp
next
  case (Cons c s)
  then obtain rest where "js_split [ch] s = takeWhile (\<lambda>x. x \<noteq> ch) s # rest" by blast
  then show ?case by simp
qed

lemma cookiePair_first_equals:
  "cookiePair c =
     (takeWhile (\<lambda>x. x \<noteq> CHR ''='') c,
      drop (Suc (length (takeWhile (\<lambda>x. x \<noteq> CHR ''='') c))) c)"
proof -
  define k where "k = takeWhile (\<lambda>x. x \<noteq> CHR ''='') c"
  obtain rest where sp: "js_split ''='' c = k # rest"
    using js_split_char_hd [of "CHR ''=''" c] unfolding k_def by blast
  have whole: "js_join ''='' (k # rest) = c"
    using js_join_js_split [of "''=''" c] sp by simp
  have "js_join ''='' rest = drop (Suc (length k)) c"
  proof (cases rest)
    case Nil
    then show ?thesis using whole by simp
  next
    case (Cons r rs)
    then have "c = k @ ''='' @ js_join ''='' rest" using whole by simp
    then show ?thesis by simp
  qed
  then show ?thesis using sp by (simp add: cookiePair_def k_def)
qed

lemma js_split_semicolon_free:
  "CHR '';'' \<notin> set x \<Longrightarrow> js_split ''; '' x = [x]"
  by (induction x) auto

lemma js_split_piece:
  "CHR '';'' \<notin> set x \<Longrightarrow> js_split ''; '' (x @ ''; '' @ rest) = x # js_split ''; '' rest"
  by (induction x) auto

lemma js_split_js_join:
  "xs \<noteq> [] \<Longrightarrow> list_all (\<lambda>x. CHR '';'' \<notin> set x) xs \<Longrightarrow>
     js_split ''; '' (js_join ''; '' xs) = xs"
proof (induction xs rule: induct_list012)
  case 1
  then show ?case by simp
next
  case (2 x)
  then show ?case by (simp add: js_split_semicolon_free)
next
  case (3 x y zs)
  then show ?case using js_split_piece [of x "js_join ''; '' (y # zs)"] by simp
qed

lemma takeWhile_key:
  "CHR ''='' \<notin> set k \<Longrightarrow> takeWhile (\<lambda>x. x \<noteq> CHR ''='') (k @ CHR ''='' # v) = k"
  by (induction k) auto

lemma cookiePair_render:
  "CHR ''='' \<notin> set k \<Longrightarrow> cookiePair (k @ ''='' @ v) = (k, v)"
  by (simp add: cookiePair_first_equals takeWhile_key)

lemma map_cookiePair_render:
  "list_all (\<lambda>(k, v). CHR ''='' \<notin> set k \<and> CHR '';'' \<notin> set k \<and> CHR '';'' \<notin> set v) cs \<Longrightarrow>
     map cookiePair (map (\<lambda>(k, v). k @ ''='' @ v) cs) = cs"
  by (induction cs) (auto simp: cookiePair_render simp del: append.simps)

lemma js_join_not_Nil:
  "cs \<noteq> [] \<Longrightarrow> js_join ''; '' (map (\<lambda>(k, v). k @ ''='' @ v) cs) \<noteq> []"
  by (induction cs rule: induct_list012) auto

text \<open>
  Claim C7. An empty or missing cookie header parses to the empty mapping. Every other
  header is split on \<open>"; "\<close>, and each piece at its first \<open>"="\<close>: the key is what
  precedes it and the value is everything after it (a later piece overrides an earlier
  one with the same key). So a header made of cookies \<open>k=v\<close> joined by \<open>"; "\<close>,
  whose keys hold no \<open>"="\<close> and whose keys and values hold no \<open>";"\<close>, gives each
  value back exactly, whatever number of \<open>"="\<close> it contains.
\<close>

theorem parseCookies_first_equals_sign:
  "parseCookies None = Map.empty \<and> parseCookies (Some []) = Map.empty
   \<and> (h \<noteq> [] \<longrightarrow>
        parseCookies (Some h) =
          map_of (rev (map (\<lambda>c. (takeWhile (\<lambda>x. x \<noteq> CHR ''='') c,
                                  drop (Suc (length (takeWhile (\<lambda>x. x \<noteq> CHR ''='') c))) c))
                         (js_split ''; '' h))))
   \<and> (cs \<noteq> [] \<and>
        list_all (\<lambda>(k, v). CHR ''='' \<notin> set k \<and> CHR '';'' \<notin> set k \<and> CHR '';'' \<notin> set v) cs \<longrightarrow>
        getCookie (Some (js_join ''; '' (map (\<lambda>(k, v). k @ ''='' @ v) cs))) name =
          map_of (rev cs) name)"
proof (intro conjI impI)
  show "parseCookies None = Map.empty" by (simp add: parseCookies_def)
  show "parseCookies (Some []) = Map.empty" by (simp add: parseCookies_def)
next
  assume "h \<noteq> []"
  then have "parseCookies (Some h) = map_of (rev (map cookiePair (js_split ''; '' h)))"
    by (simp add: parseCookies_def fromEntries_map_of)
  also have "map cookiePair (js_split ''; '' h) =
      map (\<lambda>c. (takeWhile (\<lambda>x. x \<noteq> CHR ''='') c,
                 drop (Suc (length (takeWhile (\<lambda>x. x \<noteq> CHR ''='') c))) c))
        (js_split ''; '' h)"
    by (rule map_cong) (simp_all add: cookiePair_first_equals)
  finally show "parseCookies (Some h) =
      map_of (rev (map (\<lambda>c. (takeWhile (\<lambda>x. x \<noteq> CHR ''='') c,
                              drop (Suc (length (takeWhile (\<lambda>x. x \<noteq> CHR ''='') c))) c))
                     (js_split ''; '' h)))" .
next
  assume a: "cs \<noteq> [] \<and>
    list_all (\<lambda>(k, v). CHR ''='' \<notin> set k \<and> CHR '';'' \<notin> set k \<and> CHR '';'' \<notin> set v) cs"
  let ?pieces = "map (\<lambda>(k, v). k @ ''='' @ v) cs"
  have free: "list_all (\<lambda>x. CHR '';'' \<notin> set x) ?pieces"
    using a by (auto simp: list_all_iff)
  have "js_split ''; '' (js_join ''; '' ?pieces) = ?pieces"
    using a free by (intro js_split_js_join) simp_all
  moreover have "map cookiePair ?pieces = cs"
    using a by (intro map_cookiePair_render) simp
  moreover have "js_join ''; '' ?pieces \<noteq> []"
    using a by (intro js_join_not_Nil) simp
  ultimately show "getCookie (Some (js_join ''; '' ?pieces)) name = map_of (rev cs) name"
    by (simp add: getCookie_def parseCookies_def fromEntries_map_of)
qed

theorem parseCookies_first_equals_sign_witness:
  "''theme=dark; authToken=a=b=='' \<noteq> []
   \<and> parseCookies (Some ''theme=dark; authToken=a=b=='') ''authToken'' = Some ''a=b==''
   \<and> [(''theme'', ''dark''), (''authToken'', ''a=b=='')] \<noteq> []
   \<and> list_all (\<lambda>(k, v). CHR ''='' \<notin> set k \<and> CHR '';'' \<notin> set k \<and> CHR '';'' \<notin> set v)
         [(''theme'', ''dark''), (''authToken'', ''a=b=='')]
   \<and> getCookie (Some ''theme=dark; authToken=a=b=='') ''authToken'' = Some ''a=b==''"
  using parseCookies_first_equals_sign
    [of "''theme=dark; authToken=a=b==''" "[(''theme'', ''dark''), (''authToken'', ''a=b=='')]"
        "''authToken''"]
  by simp

section \<open>Properties of the services\<close>

lemma requestIdFrom_unfold:
  "requestIdFrom ev w =
     (if headers ev ''x-request-id'' = None \<or> headers ev ''x-request-id'' = Some []
      then (Inr (uuids w (uuidsTaken w)), w\<lparr>uuidsTaken := Suc (uuidsTaken w)\<rparr>)
      else (Inr (the (headers ev ''x-request-id'')), w))"
  by (auto simp: requestIdFrom_def uuidv4_def resolve_def split: option.splits)

lemma getJwks_unfold:
  "getJwks C w =
     (if jwksCache w = None \<or> clock w - jwksLastFetch w > jwksCacheTTL C
      then (case jwksEndpoint w of
              None \<Rightarrow> (Inl (Error ''Failed to retrieve JWKs''), w\<lparr>fetches := Suc (fetches w)\<rparr>)
            | Some keys \<Rightarrow>
                (Inr (Some keys),
                 w\<lparr>fetches := Suc (fetches w), jwksCache := Some keys, jwksLastFetch := clock w\<rparr>))
      else (Inr (jwksCache w), w))"
  by (simp add: getJwks_def io_defs axios_get_JWK_URL_def split: option.splits)

lemma removeConnection_unfold:
  "removeConnection C cid w =
     (let w1 = w\<lparr>storeLog := storeLog w @ [DeleteItem (TABLE_NAME C) cid]\<rparr> in
      case storeFaults w of
        [] \<Rightarrow> (Inr (), w1\<lparr>connections := (connections w)(cid := None)\<rparr>)
      | failing # later \<Rightarrow>
          if failing then (Inl (Error ''Failed to remove connection''), w1\<lparr>storeFaults := later\<rparr>)
          else (Inr (), w1\<lparr>storeFaults := later, connections := (connections w)(cid := None)\<rparr>))"
  by (simp add: removeConnection_def deleteItem_connection_def io_defs Let_def split: list.splits)

lemma addConnection_unfold:
  "addConnection C cid ud w =
     (let w1 = w\<lparr>storeLog := storeLog w @ [PutItem (TABLE_NAME C) cid]\<rparr>;
          row = \<lparr>connectionId = cid, timestamp = clock w, ttl = clock w div 1000 + 7200,
                 userData = ud\<rparr>
      in case storeFaults w of
        [] \<Rightarrow> (Inr (), w1\<lparr>connections := (connections w)(cid \<mapsto> row)\<rparr>)
      | failing # later \<Rightarrow>
          if failing then (Inl (Error ''Failed to add connection''), w1\<lparr>storeFaults := later\<rparr>)
          else (Inr (), w1\<lparr>storeFaults := later, connections := (connections w)(cid \<mapsto> row)\<rparr>))"
  by (simp add: addConnection_def putItem_connection_def io_defs Let_def split: list.splits)

lemma validateToken_frame:
  "connections (snd (validateToken C L t w)) = connections w
   \<and> storeFaults (snd (validateToken C L t w)) = storeFaults w
   \<and> storeLog (snd (validateToken C L t w)) = storeLog w"
  by (simp add: validateToken_def getJwks_unfold thenDo_def reject_def resolve_def
           split: option.splits sum.splits)

lemma authenticateFromCookie_returns:
  "\<exists>r. fst (authenticateFromCookie C L t w) = Inr r"
  by (cases "validateToken C L t w")
     (auto simp: authenticateFromCookie_def tryCatch_def thenDo_def resolve_def split: sum.splits)

lemma authenticateFromCookie_snd:
  "snd (authenticateFromCookie C L t w) = (if t = [] then w else snd (validateToken C L t w))"
  by (cases "validateToken C L t w")
     (auto simp: authenticateFromCookie_def tryCatch_def thenDo_def resolve_def split: sum.splits)

lemma authenticateFromCookie_fst:
  "fst (authenticateFromCookie C L t w) =
     Inr (if t = [] then None
          else (case fst (validateToken C L t w) of Inl e \<Rightarrow> None | Inr p \<Rightarrow> Some p))"
  by (cases "validateToken C L t w")
     (auto simp: authenticateFromCookie_def tryCatch_def thenDo_def resolve_def split: sum.splits)


lemma requestIdFrom_frame:
  "\<exists>rid. fst (requestIdFrom ev w) = Inr rid"
  "connections (snd (requestIdFrom ev w)) = connections w"
  "storeFaults (snd (requestIdFrom ev w)) = storeFaults w"
  "storeLog (snd (requestIdFrom ev w)) = storeLog w"
  "clock (snd (requestIdFrom ev w)) = clock w"
  by (simp_all add: requestIdFrom_unfold)

text \<open>The two removals of a rejected connect: the one of the branch and the one of the
  \<open>catch\<close> block.\<close>

lemma remove_twice:
  "(case tryCatch (thenDo (removeConnection C cid) (\<lambda>_. resolve ra))
            (\<lambda>error. thenDo (removeConnection C cid) (\<lambda>_. resolve rb)) w of
      (Inr resp, w') \<Rightarrow>
        (resp = ra \<and> take 1 (storeFaults w) \<noteq> [True]
         \<or> resp = rb \<and> take 1 (storeFaults w) = [True])
        \<and> connections w' cid = None
    | (Inl e, w') \<Rightarrow>
        e = Error ''Failed to remove connection'' \<and> take 2 (storeFaults w) = [True, True])"
  by (simp add: tryCatch_def thenDo_def resolve_def removeConnection_unfold Let_def
           split: list.splits)

lemma requestIdFrom_result:
  obtains rid w1 where "requestIdFrom ev w = (Inr rid, w1)"
    and "connections w1 = connections w" and "storeFaults w1 = storeFaults w"
    and "storeLog w1 = storeLog w" and "clock w1 = clock w"
  by (cases "requestIdFrom ev w") (use requestIdFrom_frame [of ev w] in auto)

lemma middleware_missing:
  assumes "getCookie (cookieHeaderOf ev) (cookieName C) = None
           \<or> getCookie (cookieHeaderOf ev) (cookieName C) = Some []"
    and rid: "requestIdFrom ev w = (Inr rid, w1)"
  shows "webSocketAuthMiddleware C L ev w =
           tryCatch
             (thenDo (removeConnection C (requestContext_connectionId ev))
                (\<lambda>_. resolve (rejection 401 ''Missing authentication token'')))
             (\<lambda>error. thenDo (removeConnection C (requestContext_connectionId ev))
                (\<lambda>_. resolve (rejection 500 ''Authentication failed'')))
             w1"
  using assms(1)
proof (elim disjE)
  assume "getCookie (cookieHeaderOf ev) (cookieName C) = None"
  then show ?thesis
    by (simp add: webSocketAuthMiddleware_def Let_def tryCatch_def thenDo_def rid)
next
  assume "getCookie (cookieHeaderOf ev) (cookieName C) = Some []"
  then show ?thesis
    by (simp add: webSocketAuthMiddleware_def Let_def tryCatch_def thenDo_def rid)
qed

lemma getCookie_Some_header:
  assumes "getCookie h name = Some t"
  obtains hdr where "h = Some hdr" and "hdr \<noteq> []"
  using assms by (cases h) (auto simp: getCookie_def parseCookies_def split: if_splits)

lemma middleware_invalid:
  assumes tok: "getCookie (cookieHeaderOf ev) (cookieName C) = Some t" "t \<noteq> []"
    and rid: "requestIdFrom ev w = (Inr rid, w1)"
    and bad: "validateToken C L t w1 = (Inl e, w2)"
  shows "webSocketAuthMiddleware C L ev w =
           tryCatch
             (thenDo (removeConnection C (requestContext_connectionId ev))
                (\<lambda>_. resolve (rejection 401 ''Invalid authentication token'')))
             (\<lambda>error. thenDo (removeConnection C (requestContext_connectionId ev))
                (\<lambda>_. resolve (rejection 500 ''Authentication failed'')))
             w2"
proof -
  obtain h where hdr: "cookieHeaderOf ev = Some h" "h \<noteq> []"
    using getCookie_Some_header [OF tok(1)] by blast
  have auth: "authenticateFromCookie C L t w1 = (Inr None, w2)"
    using bad tok(2) authenticateFromCookie_fst [of C L t w1] authenticateFromCookie_snd [of C L t w1]
    by (cases "authenticateFromCookie C L t w1") auto
  show ?thesis
    using tok
    by (simp add: webSocketAuthMiddleware_def Let_def tryCatch_def thenDo_def rid auth hdr)
qed

lemma middleware_valid:
  assumes tok: "getCookie (cookieHeaderOf ev) (cookieName C) = Some t" "t \<noteq> []"
    and rid: "requestIdFrom ev w = (Inr rid, w1)"
    and good: "validateToken C L t w1 = (Inr payload, w2)"
  shows "webSocketAuthMiddleware C L ev w =
           tryCatch
             (thenDo
                (addConnection C (requestContext_connectionId ev)
                   [(''requestId'', Some rid), (''userId'', map_of payload ''sub'')])
                (\<lambda>_. resolve
                   \<lparr>statusCode = 200, body = None, user = Some payload, requestId = Some rid\<rparr>))
             (\<lambda>error. thenDo (removeConnection C (requestContext_connectionId ev))
                (\<lambda>_. resolve (rejection 500 ''Authentication failed'')))
             w2"
proof -
  obtain h where hdr: "cookieHeaderOf ev = Some h" "h \<noteq> []"
    using getCookie_Some_header [OF tok(1)] by blast
  have auth: "authenticateFromCookie C L t w1 = (Inr (Some payload), w2)"
    using good tok(2) authenticateFromCookie_fst [of C L t w1] authenticateFromCookie_snd [of C L t w1]
    by (cases "authenticateFromCookie C L t w1") auto
  show ?thesis
    using tok
    by (simp add: webSocketAuthMiddleware_def Let_def tryCatch_def thenDo_def rid auth hdr)
qed


lemma validateToken_decoded:
  assumes "decode L t = Some d" "header_kid d = Some k" "k \<noteq> []"
  shows "validateToken C L t w =
           (case getJwks C w of
              (Inl e, w') \<Rightarrow> (Inl e, w')
            | (Inr None, w') \<Rightarrow> (Inl TypeError, w')
            | (Inr (Some keys), w') \<Rightarrow>
                (case find (\<lambda>j. kid j = k) keys of
                   None \<Rightarrow> (Inl (Error ''Invalid token signature: Key ID not found''), w')
                 | Some key \<Rightarrow>
                     (case jwkToPem L key of
                        None \<Rightarrow> (Inl JwkToPemException, w')
                      | Some pem \<Rightarrow>
                          (case verify L t pem (issuer C) [''RS256''] of
                             Inl error \<Rightarrow> (Inl (Error ''Invalid token''), w')
                           | Inr verifiedToken \<Rightarrow> (Inr verifiedToken, w')))))"
  using assms
  by (simp add: validateToken_def thenDo_def reject_def resolve_def
           split: prod.splits sum.splits option.splits)






lemma middleware_rejects_invalid:
  assumes tok: "getCookie (cookieHeaderOf ev) (cookieName C) = Some t" "t \<noteq> []"
    and bad: "fst (validateToken C L t (snd (requestIdFrom ev w))) = Inl e"
    and store: "take 1 (storeFaults w) \<noteq> [True]"
  shows "fst (webSocketAuthMiddleware C L ev w) = Inr (rejection 401 ''Invalid authentication token'')
    \<and> connections (snd (webSocketAuthMiddleware C L ev w)) (requestContext_connectionId ev) = None
    \<and> storeLog (snd (webSocketAuthMiddleware C L ev w)) =
        storeLog w @ [DeleteItem (TABLE_NAME C) (requestContext_connectionId ev)]"
proof -
  obtain rid w1 where rid: "requestIdFrom ev w = (Inr rid, w1)"
    and w1: "storeFaults w1 = storeFaults w" "storeLog w1 = storeLog w"
    by (rule requestIdFrom_result)
  obtain w2 where w2: "validateToken C L t w1 = (Inl e, w2)"
    using bad rid by (cases "validateToken C L t w1") auto
  have frame: "storeFaults w2 = storeFaults w" "storeLog w2 = storeLog w"
    using validateToken_frame [of C L t w1] w2 w1 by simp_all
  show ?thesis
    using store
    unfolding middleware_invalid [OF tok rid w2]
    by (auto simp: tryCatch_def thenDo_def resolve_def removeConnection_unfold Let_def frame
             split: list.splits)
qed

text \<open>
  Claim C3, as amended. A connect attempt with an expired token (decodable, its key
  found in the key set, \<open>jwt.verify\<close> throwing \<open>TokenExpiredError\<close>) is answered,
  when the store accepts the removal request, with status 401 and the body
  \<open>{message: "Invalid authentication token"}\<close>: the body has no error code, and
  expiry is not told apart from any other invalid token. The attempt sends the store one
  request, the removal: no row is written, and none is left for the connection id.
\<close>

theorem expired_token_rejected:
  assumes tok: "getCookie (cookieHeaderOf ev) (cookieName C) = Some t" "t \<noteq> []"
    and dec: "decode L t = Some d" "header_kid d = Some k" "k \<noteq> []"
    and keys: "fst (getJwks C (snd (requestIdFrom ev w))) = Inr (Some ks)"
      "find (\<lambda>j. kid j = k) ks = Some key"
    and pem: "jwkToPem L key = Some pem"
    and expired: "verify L t pem (issuer C) [''RS256''] = Inl TokenExpiredError"
    and store: "take 1 (storeFaults w) \<noteq> [True]"
  shows "fst (webSocketAuthMiddleware C L ev w) = Inr (rejection 401 ''Invalid authentication token'')
    \<and> connections (snd (webSocketAuthMiddleware C L ev w)) (requestContext_connectionId ev) = None
    \<and> storeLog (snd (webSocketAuthMiddleware C L ev w)) =
        storeLog w @ [DeleteItem (TABLE_NAME C) (requestContext_connectionId ev)]"
proof -
  let ?w1 = "snd (requestIdFrom ev w)"
  have "fst (validateToken C L t ?w1) = Inl (Error ''Invalid token'')"
    using keys pem expired
    by (cases "getJwks C ?w1") (simp add: validateToken_decoded [OF dec])
  from middleware_rejects_invalid [OF tok this store] show ?thesis .
qed

theorem expired_token_rejected_witness:
  "getCookie (cookieHeaderOf (connectEvent ''expired'')) (cookieName exampleConfig) = Some ''expired''
   \<and> decode exampleLibrary ''expired'' = Some \<lparr>header_kid = Some ''k1''\<rparr>
   \<and> fst (getJwks exampleConfig (snd (requestIdFrom (connectEvent ''expired'') registeredWorld))) =
        Inr (Some [\<lparr>kid = ''k1'', material = ''pem1''\<rparr>])
   \<and> verify exampleLibrary ''expired'' ''pem1'' (issuer exampleConfig) [''RS256''] = Inl TokenExpiredError
   \<and> take 1 (storeFaults registeredWorld) \<noteq> [True]
   \<and> fst (webSocketAuthMiddleware exampleConfig exampleLibrary (connectEvent ''expired'') registeredWorld) =
        Inr (rejection 401 ''Invalid authentication token'')
   \<and> connections
        (snd (webSocketAuthMiddleware exampleConfig exampleLibrary (connectEvent ''expired'')
                registeredWorld)) ''c1'' = None
   \<and> storeLog
        (snd (webSocketAuthMiddleware exampleConfig exampleLibrary (connectEvent ''expired'')
                registeredWorld)) =
        [PutItem ''socket-connections'' ''c1'', DeleteItem ''socket-connections'' ''c1'']"
  using expired_token_rejected
    [of "connectEvent ''expired''" exampleConfig "''expired''" exampleLibrary
        "\<lparr>header_kid = Some ''k1''\<rparr>" "''k1''" registeredWorld
        "[\<lparr>kid = ''k1'', material = ''pem1''\<rparr>]" "\<lparr>kid = ''k1'', material = ''pem1''\<rparr>" "''pem1''"]
  by (simp add: eval_defs registeredWorld_def)

text \<open>
  What \<open>handleAuthError\<close> makes of the message \<open>validateToken\<close> throws for an
  expired token, of the message \<open>jsonwebtoken\<close> gives its \<open>TokenExpiredError\<close>, and
  of a message that contains \<open>token expired\<close>.
\<close>

lemma handleAuthError_on_validation_errors:
  "errorCode (handleAuthError \<lparr>thrown_message = Some ''Invalid token'', thrown_code = None\<rparr> sid) = ''AUTH_ERROR''
   \<and> errorCode (handleAuthError \<lparr>thrown_message = Some ''jwt expired'', thrown_code = None\<rparr> sid) = ''AUTH_ERROR''
   \<and> errorCode (handleAuthError \<lparr>thrown_message = Some ''token expired'', thrown_code = None\<rparr> sid) = ''TOKEN_EXPIRED''"
  by (simp add: handleAuthError_def orElse_def AuthError_def RateLimitError_def)

text \<open>
  Claim C3 as stated fails: the response to an expired token carries no error code.
  (\<open>handleAuthError\<close>, which has the code \<open>TOKEN_EXPIRED\<close>, is not called on the
  connect path; see \<open>handleAuthError_on_validation_errors\<close> for what it would make of
  the errors of this path.)
\<close>

theorem expired_token_no_error_code_counterexample:
  "verify exampleLibrary ''expired'' ''pem1'' (issuer exampleConfig) [''RS256''] = Inl TokenExpiredError
   \<and> fst (webSocketAuthMiddleware exampleConfig exampleLibrary (connectEvent ''expired'') exampleWorld) =
        Inr \<lparr>statusCode = 401,
             body = Some (JSON_stringify [(''message'', ''Invalid authentication token'')]),
             user = None, requestId = None\<rparr>"
  by (simp add: eval_defs)




text \<open>
  Claim C5, as amended. For a token whose key id is absent from the key set
  \<open>getJwks\<close> returns, \<open>validateToken\<close> fails with
  \<open>Invalid token signature: Key ID not found\<close>. A missing key id triggers no fetch
  of its own: the call fetches the key set once if the cache is empty or older than the
  TTL, and not at all otherwise. A second validation of the same token within the TTL
  fails the same way and leaves the world as it was: no fetch.
\<close>

theorem unknown_kid_fails_without_refetch:
  assumes dec: "decode L t = Some d" "header_kid d = Some k" "k \<noteq> []"
    and keys: "getJwks C w = (Inr (Some ks), w1)"
    and absent: "find (\<lambda>j. kid j = k) ks = None"
  shows "validateToken C L t w = (Inl (Error ''Invalid token signature: Key ID not found''), w1)
    \<and> fetches w1 =
        fetches w + (if jwksCache w = None \<or> clock w - jwksLastFetch w > jwksCacheTTL C then 1 else 0)
    \<and> (\<forall>w2. jwksCache w2 = jwksCache w1 \<and> jwksLastFetch w2 = jwksLastFetch w1
            \<and> clock w2 - jwksLastFetch w2 \<le> jwksCacheTTL C
          \<longrightarrow> validateToken C L t w2 =
                (Inl (Error ''Invalid token signature: Key ID not found''), w2))"
proof (intro conjI allI impI)
  show "validateToken C L t w = (Inl (Error ''Invalid token signature: Key ID not found''), w1)"
    using keys absent by (simp add: validateToken_decoded [OF dec])
  show "fetches w1 =
      fetches w + (if jwksCache w = None \<or> clock w - jwksLastFetch w > jwksCacheTTL C then 1 else 0)"
    using keys by (auto simp: getJwks_unfold split: if_splits option.splits)
next
  fix w2 :: world
  assume a: "jwksCache w2 = jwksCache w1 \<and> jwksLastFetch w2 = jwksLastFetch w1
            \<and> clock w2 - jwksLastFetch w2 \<le> jwksCacheTTL C"
  have "jwksCache w1 = Some ks"
    using keys by (auto simp: getJwks_unfold split: if_splits option.splits)
  with a have "getJwks C w2 = (Inr (Some ks), w2)"
    by (simp add: getJwks_unfold)
  then show "validateToken C L t w2 =
      (Inl (Error ''Invalid token signature: Key ID not found''), w2)"
    using absent by (simp add: validateToken_decoded [OF dec])
qed

theorem unknown_kid_fails_without_refetch_witness:
  "decode exampleLibrary ''rotated'' = Some \<lparr>header_kid = Some ''k2''\<rparr>
   \<and> fst (getJwks exampleConfig exampleWorld) = Inr (Some [\<lparr>kid = ''k1'', material = ''pem1''\<rparr>])
   \<and> find (\<lambda>j. kid j = ''k2'') [\<lparr>kid = ''k1'', material = ''pem1''\<rparr>] = None
   \<and> fst (validateToken exampleConfig exampleLibrary ''rotated'' exampleWorld) =
       Inl (Error ''Invalid token signature: Key ID not found'')
   \<and> fetches (snd (getJwks exampleConfig exampleWorld)) = 1
   \<and> clock ((snd (getJwks exampleConfig exampleWorld))\<lparr>clock := 1700000060000\<rparr>)
       - jwksLastFetch ((snd (getJwks exampleConfig exampleWorld))\<lparr>clock := 1700000060000\<rparr>)
       \<le> jwksCacheTTL exampleConfig
   \<and> validateToken exampleConfig exampleLibrary ''rotated''
        ((snd (getJwks exampleConfig exampleWorld))\<lparr>clock := 1700000060000\<rparr>) =
       (Inl (Error ''Invalid token signature: Key ID not found''),
        (snd (getJwks exampleConfig exampleWorld))\<lparr>clock := 1700000060000\<rparr>)"
proof -
  have keys: "getJwks exampleConfig exampleWorld =
      (Inr (Some [\<lparr>kid = ''k1'', material = ''pem1''\<rparr>]), snd (getJwks exampleConfig exampleWorld))"
    by (simp add: eval_defs)
  have dec: "decode exampleLibrary ''rotated'' = Some \<lparr>header_kid = Some ''k2''\<rparr>"
    "header_kid \<lparr>header_kid = Some ''k2''\<rparr> = Some ''k2''" "''k2'' \<noteq> []"
    by (simp_all add: exampleLibrary_def)
  have absent: "find (\<lambda>j. kid j = ''k2'') [\<lparr>kid = ''k1'', material = ''pem1''\<rparr>] = None"
    by simp
  have window: "clock ((snd (getJwks exampleConfig exampleWorld))\<lparr>clock := 1700000060000\<rparr>)
       - jwksLastFetch ((snd (getJwks exampleConfig exampleWorld))\<lparr>clock := 1700000060000\<rparr>)
       \<le> jwksCacheTTL exampleConfig"
    by (simp add: eval_defs)
  note inst = unknown_kid_fails_without_refetch [OF dec keys absent]
  from inst have second: "validateToken exampleConfig exampleLibrary ''rotated''
        ((snd (getJwks exampleConfig exampleWorld))\<lparr>clock := 1700000060000\<rparr>) =
       (Inl (Error ''Invalid token signature: Key ID not found''),
        (snd (getJwks exampleConfig exampleWorld))\<lparr>clock := 1700000060000\<rparr>)"
    using window by simp
  have fetched: "fetches (snd (getJwks exampleConfig exampleWorld)) = 1"
    using inst by (simp add: exampleWorld_def)
  have returned: "fst (getJwks exampleConfig exampleWorld) =
      Inr (Some [\<lparr>kid = ''k1'', material = ''pem1''\<rparr>])"
    using keys by (metis fst_conv)
  have failed: "fst (validateToken exampleConfig exampleLibrary ''rotated'' exampleWorld) =
       Inl (Error ''Invalid token signature: Key ID not found'')"
    using inst by simp
  show ?thesis
    by (intro conjI dec(1) returned absent failed fetched window second)
qed

text \<open>
  Claim C5 as stated fails: with a fresh cache that lacks the key id, the validation
  fails without any fetch.
\<close>

theorem unknown_kid_no_refetch_counterexample:
  "jwksCache (exampleWorld\<lparr>jwksCache := Some [\<lparr>kid = ''k1'', material = ''pem1''\<rparr>],
                           jwksLastFetch := 1700000000000\<rparr>) =
     Some [\<lparr>kid = ''k1'', material = ''pem1''\<rparr>]
   \<and> decode exampleLibrary ''rotated'' = Some \<lparr>header_kid = Some ''k2''\<rparr>
   \<and> fst (validateToken exampleConfig exampleLibrary ''rotated''
            (exampleWorld\<lparr>jwksCache := Some [\<lparr>kid = ''k1'', material = ''pem1''\<rparr>],
                          jwksLastFetch := 1700000000000\<rparr>)) =
       Inl (Error ''Invalid token signature: Key ID not found'')
   \<and> fetches (snd (validateToken exampleConfig exampleLibrary ''rotated''
            (exampleWorld\<lparr>jwksCache := Some [\<lparr>kid = ''k1'', material = ''pem1''\<rparr>],
                          jwksLastFetch := 1700000000000\<rparr>))) =
       fetches (exampleWorld\<lparr>jwksCache := Some [\<lparr>kid = ''k1'', material = ''pem1''\<rparr>],
                            jwksLastFetch := 1700000000000\<rparr>)"
  by (simp add: eval_defs)

lemma sendToClient_unfold:
  assumes "fst (getApiGateway ev w) = Inr client"
  shows "sendToClient C ev cid payload w =
     (case postToConnection w client cid payload of
        None \<Rightarrow> (Inr True, w\<lparr>apiGateway := Some client\<rparr>)
      | Some e \<Rightarrow>
          if isGone e
          then (case removeConnection C cid (w\<lparr>apiGateway := Some client\<rparr>) of
                  (Inl x, w') \<Rightarrow> (Inl x, w')
                | (Inr u, w') \<Rightarrow> (Inr False, w'))
          else (Inr False, w\<lparr>apiGateway := Some client\<rparr>))"
proof (cases "apiGateway w")
  case None
  then show ?thesis
    using assms
    by (auto simp: sendToClient_def getApiGateway_def apiGatewaySend_def tryCatch_def thenDo_def
          resolve_def Let_def split: option.splits prod.splits sum.splits)
next
  case (Some c)
  then have c: "c = client" using assms by (simp add: getApiGateway_def)
  have eq: "w\<lparr>apiGateway := Some client\<rparr> = w" using Some c by simp
  show ?thesis
    unfolding eq using Some c
    by (auto simp: sendToClient_def getApiGateway_def apiGatewaySend_def tryCatch_def thenDo_def
          resolve_def Let_def split: option.splits prod.splits sum.splits)
qed

lemma getApiGateway_client:
  obtains client where "fst (getApiGateway ev w) = Inr client"
  by (cases "apiGateway w") (auto simp: getApiGateway_def Let_def)

text \<open>
  Claim C9. When the post to the connection fails with an error whose name is not
  \<open>GoneException\<close> and whose HTTP status is not 410, \<open>sendToClient\<close> returns
  \<open>false\<close>, the registry is as it was, and no request was sent to the store.
\<close>

theorem sendToClient_other_error_frame:
  assumes "fst (getApiGateway ev w) = Inr client"
    and "postToConnection w client cid payload = Some (TransportException name status)"
    and "name \<noteq> ''GoneException''" and "status \<noteq> Some 410"
  shows "fst (sendToClient C ev cid payload w) = Inr False
     \<and> connections (snd (sendToClient C ev cid payload w)) = connections w
     \<and> storeLog (snd (sendToClient C ev cid payload w)) = storeLog w"
  using assms(2-) by (simp add: sendToClient_unfold [OF assms(1)])

theorem sendToClient_other_error_frame_witness:
  "fst (getApiGateway (connectEvent ''good'') (registeredWorld\<lparr>postToConnection := throttledAnswer\<rparr>)) =
     Inr ''https://example.com/dev''
   \<and> postToConnection (registeredWorld\<lparr>postToConnection := throttledAnswer\<rparr>)
        ''https://example.com/dev'' ''c1'' (JString ''ping'') =
       Some (TransportException ''LimitExceededException'' (Some 429))
   \<and> ''LimitExceededException'' \<noteq> ''GoneException'' \<and> Some (429 :: nat) \<noteq> Some 410
   \<and> fst (sendToClient exampleConfig (connectEvent ''good'') ''c1'' (JString ''ping'')
            (registeredWorld\<lparr>postToConnection := throttledAnswer\<rparr>)) = Inr False
   \<and> connections (snd (sendToClient exampleConfig (connectEvent ''good'') ''c1'' (JString ''ping'')
            (registeredWorld\<lparr>postToConnection := throttledAnswer\<rparr>))) ''c1'' =
       connections registeredWorld ''c1''
   \<and> connections registeredWorld ''c1'' \<noteq> None"
  using sendToClient_other_error_frame
    [of "connectEvent ''good''" "registeredWorld\<lparr>postToConnection := throttledAnswer\<rparr>"
        "''https://example.com/dev''" "''c1''" "JString ''ping''" "''LimitExceededException''"
        "Some 429" exampleConfig]
  by (simp add: eval_defs registeredWorld_def throttledAnswer_def)

text \<open>
  Claim C4, as amended. When the gateway reports the connection as gone and the store
  accepts the removal requests, \<open>sendToClient\<close> returns \<open>false\<close> and the id is
  removed from the registry; a subsequent \<open>sendToClient\<close> to the same id returns
  \<open>false\<close> too and leaves the registry as the first call left it, but it does send
  the store the removal request again.
\<close>

theorem sendToClient_gone_removes_each_time:
  assumes client: "fst (getApiGateway ev w) = Inr client"
    and gone: "postToConnection w client cid payload = Some e" "isGone e"
    and store: "True \<notin> set (take 2 (storeFaults w))"
    and first: "sendToClient C ev cid payload w = (r1, w1)"
    and second: "sendToClient C ev cid payload w1 = (r2, w2)"
  shows "r1 = Inr False \<and> connections w1 = (connections w)(cid := None)
     \<and> storeLog w1 = storeLog w @ [DeleteItem (TABLE_NAME C) cid]
     \<and> r2 = Inr False \<and> connections w2 = connections w1
     \<and> storeLog w2 = storeLog w1 @ [DeleteItem (TABLE_NAME C) cid]"
proof -
  have one: "r1 = Inr False \<and> connections w1 = (connections w)(cid := None)
     \<and> storeLog w1 = storeLog w @ [DeleteItem (TABLE_NAME C) cid]
     \<and> apiGateway w1 = Some client \<and> postToConnection w1 = postToConnection w
     \<and> True \<notin> set (take 1 (storeFaults w1))"
    using first gone store
    by (auto simp: sendToClient_unfold [OF client] removeConnection_unfold Let_def
             split: list.splits if_splits)
  then have client1: "fst (getApiGateway ev w1) = Inr client"
    by (simp add: getApiGateway_def)
  have "r2 = Inr False \<and> connections w2 = connections w1
     \<and> storeLog w2 = storeLog w1 @ [DeleteItem (TABLE_NAME C) cid]"
    using second gone one
    by (auto simp: sendToClient_unfold [OF client1] removeConnection_unfold Let_def
             split: list.splits if_splits)
  with one show ?thesis by simp
qed

theorem sendToClient_gone_removes_each_time_witness:
  "fst (getApiGateway (connectEvent ''good'') (registeredWorld\<lparr>postToConnection := goneAnswer\<rparr>)) =
     Inr ''https://example.com/dev''
   \<and> postToConnection (registeredWorld\<lparr>postToConnection := goneAnswer\<rparr>)
        ''https://example.com/dev'' ''c1'' (JString ''ping'') =
       Some (TransportException ''GoneException'' (Some 410))
   \<and> isGone (TransportException ''GoneException'' (Some 410))
   \<and> True \<notin> set (take 2 (storeFaults (registeredWorld\<lparr>postToConnection := goneAnswer\<rparr>)))
   \<and> connections registeredWorld ''c1'' \<noteq> None
   \<and> fst (sendToClient exampleConfig (connectEvent ''good'') ''c1'' (JString ''ping'')
          (registeredWorld\<lparr>postToConnection := goneAnswer\<rparr>)) = Inr False
   \<and> connections (snd (sendToClient exampleConfig (connectEvent ''good'') ''c1'' (JString ''ping'')
          (registeredWorld\<lparr>postToConnection := goneAnswer\<rparr>))) ''c1'' = None
   \<and> fst (sendToClient exampleConfig (connectEvent ''good'') ''c1'' (JString ''ping'')
          (snd (sendToClient exampleConfig (connectEvent ''good'') ''c1'' (JString ''ping'')
                  (registeredWorld\<lparr>postToConnection := goneAnswer\<rparr>)))) = Inr False
   \<and> connections (snd (sendToClient exampleConfig (connectEvent ''good'') ''c1'' (JString ''ping'')
          (snd (sendToClient exampleConfig (connectEvent ''good'') ''c1'' (JString ''ping'')
                  (registeredWorld\<lparr>postToConnection := goneAnswer\<rparr>))))) ''c1'' = None"
  using sendToClient_gone_removes_each_time
    [of "connectEvent ''good''" "registeredWorld\<lparr>postToConnection := goneAnswer\<rparr>"
        "''https://example.com/dev''" "''c1''" "JString ''ping''"
        "TransportException ''GoneException'' (Some 410)" exampleConfig
        "fst (sendToClient exampleConfig (connectEvent ''good'') ''c1'' (JString ''ping'')
          (registeredWorld\<lparr>postToConnection := goneAnswer\<rparr>))"
        "snd (sendToClient exampleConfig (connectEvent ''good'') ''c1'' (JString ''ping'')
          (registeredWorld\<lparr>postToConnection := goneAnswer\<rparr>))"
        "fst (sendToClient exampleConfig (connectEvent ''good'') ''c1'' (JString ''ping'')
          (snd (sendToClient exampleConfig (connectEvent ''good'') ''c1'' (JString ''ping'')
                  (registeredWorld\<lparr>postToConnection := goneAnswer\<rparr>))))"
        "snd (sendToClient exampleConfig (connectEvent ''good'') ''c1'' (JString ''ping'')
          (snd (sendToClient exampleConfig (connectEvent ''good'') ''c1'' (JString ''ping'')
                  (registeredWorld\<lparr>postToConnection := goneAnswer\<rparr>))))"]
  by (simp add: eval_defs registeredWorld_def goneAnswer_def)

text \<open>
  Claim C4 as stated fails: the second call sends the removal request again, and where
  the store refuses that request the second call throws instead of returning \<open>false\<close>.
\<close>

theorem sendToClient_gone_second_call_counterexample:
  "fst (sendToClient exampleConfig (connectEvent ''good'') ''c1'' (JString ''ping'')
          (registeredWorld\<lparr>postToConnection := goneAnswer\<rparr>)) = Inr False
   \<and> storeLog (snd (sendToClient exampleConfig (connectEvent ''good'') ''c1'' (JString ''ping'')
          (registeredWorld\<lparr>postToConnection := goneAnswer\<rparr>))) =
       [PutItem ''socket-connections'' ''c1'', DeleteItem ''socket-connections'' ''c1'']
   \<and> storeLog (snd (sendToClient exampleConfig (connectEvent ''good'') ''c1'' (JString ''ping'')
          (snd (sendToClient exampleConfig (connectEvent ''good'') ''c1'' (JString ''ping'')
                  (registeredWorld\<lparr>postToConnection := goneAnswer\<rparr>))))) =
       [PutItem ''socket-connections'' ''c1'', DeleteItem ''socket-connections'' ''c1'',
        DeleteItem ''socket-connections'' ''c1'']
   \<and> fst (sendToClient exampleConfig (connectEvent ''good'') ''c1'' (JString ''ping'')
          (snd (sendToClient exampleConfig (connectEvent ''good'') ''c1'' (JString ''ping'')
                  (registeredWorld\<lparr>postToConnection := goneAnswer, storeFaults := [False, True]\<rparr>)))) =
       Inl (Error ''Failed to remove connection'')"
  by (simp add: eval_defs registeredWorld_def goneAnswer_def)

lemma sendToClient_messages:
  "messages (snd (sendToClient C ev cid payload w)) = messages w"
proof -
  obtain client where c: "fst (getApiGateway ev w) = Inr client"
    by (rule getApiGateway_client)
  show ?thesis
    by (simp add: sendToClient_unfold [OF c] removeConnection_unfold Let_def
          split: option.splits list.splits)
qed

lemma sendToClient_throws:
  "fst (sendToClient C ev cid payload w) = Inl x \<Longrightarrow> x = Error ''Failed to remove connection''"
proof -
  obtain client where c: "fst (getApiGateway ev w) = Inr client"
    by (rule getApiGateway_client)
  show "fst (sendToClient C ev cid payload w) = Inl x \<Longrightarrow> x = Error ''Failed to remove connection''"
    by (simp add: sendToClient_unfold [OF c] removeConnection_unfold Let_def
          split: option.splits list.splits if_splits)
qed

lemma saveMessage_unfold:
  "saveMessage C cid txt sid md w =
     (let m = \<lparr>msg_id = uuids w (uuidsTaken w), msg_connectionId = cid, content = txt,
               msg_timestamp = clock w, msg_ttl = clock w div 1000 + MESSAGE_TTL_SECONDS,
               sessionId = sid, metadata = md\<rparr>;
          w0 = w\<lparr>uuidsTaken := Suc (uuidsTaken w),
                 storeLog := storeLog w @ [PutItem (messagesTableName C) (msg_id m)]\<rparr>;
          rows = insertAt (indexPosition w m) m (filter (\<lambda>x. msg_id x \<noteq> msg_id m) (messages w))
      in case storeFaults w of
           [] \<Rightarrow> (Inr m, w0\<lparr>messages := rows\<rparr>)
         | failing # later \<Rightarrow>
             if failing then (Inl StoreException, w0\<lparr>storeFaults := later\<rparr>)
             else (Inr m, w0\<lparr>storeFaults := later, messages := rows\<rparr>))"
  by (simp add: saveMessage_def putItem_message_def storeSend_def thenDo_def resolve_def
        Date_now_def uuidv4_def Let_def split: list.splits)

lemma saveMessage_frame:
  assumes "saveMessage C cid txt sid md w = (r, w1)"
  shows "connections w1 = connections w" and "r = Inr m \<Longrightarrow> m \<in> set (messages w1)"
  using assms
  by (auto simp: saveMessage_unfold Let_def insertAt_def split: list.splits if_splits)

text \<open>
  Claim C1, as amended. When \<open>saveMessage\<close> succeeds, \<open>persistAndSendMessage\<close>
  returns the created message if \<open>sendToClient\<close> returns \<open>true\<close> and \<open>null\<close>
  otherwise; either way the message is a row of the messages table afterwards. When
  \<open>saveMessage\<close> fails, it returns \<open>null\<close> and the registry is as it was.
\<close>

theorem persistAndSendMessage_outcomes:
  "(saveMessage C cid txt sid md w = (Inr m, w1) \<longrightarrow>
      fst (persistAndSendMessage C ev cid txt sid md w) =
        Inr (if fst (sendToClient C ev cid (messagePayload m txt md) w1) = Inr True
             then Some m else None)
      \<and> m \<in> set (messages (snd (persistAndSendMessage C ev cid txt sid md w))))
   \<and> (saveMessage C cid txt sid md w = (Inl e, w1) \<longrightarrow>
      fst (persistAndSendMessage C ev cid txt sid md w) = Inr None
      \<and> connections (snd (persistAndSendMessage C ev cid txt sid md w)) = connections w)"
proof (intro conjI impI)
  assume saved: "saveMessage C cid txt sid md w = (Inr m, w1)"
  obtain r w2 where sent: "sendToClient C ev cid (messagePayload m txt md) w1 = (r, w2)"
    by (cases "sendToClient C ev cid (messagePayload m txt md) w1")
  have snd_eq: "snd (persistAndSendMessage C ev cid txt sid md w) = w2"
    using saved sent
    by (cases r) (simp_all add: persistAndSendMessage_def tryCatch_def thenDo_def resolve_def)
  show "fst (persistAndSendMessage C ev cid txt sid md w) =
        Inr (if fst (sendToClient C ev cid (messagePayload m txt md) w1) = Inr True
             then Some m else None)"
    using saved sent
    by (cases r) (auto simp: persistAndSendMessage_def tryCatch_def thenDo_def resolve_def)
  have "messages w2 = messages w1"
    using sendToClient_messages [of C ev cid "messagePayload m txt md" w1] sent by simp
  then show "m \<in> set (messages (snd (persistAndSendMessage C ev cid txt sid md w)))"
    using saveMessage_frame(2) [OF saved] snd_eq by simp
next
  assume failed: "saveMessage C cid txt sid md w = (Inl e, w1)"
  then show "fst (persistAndSendMessage C ev cid txt sid md w) = Inr None"
    by (simp add: persistAndSendMessage_def tryCatch_def thenDo_def resolve_def)
  show "connections (snd (persistAndSendMessage C ev cid txt sid md w)) = connections w"
    using failed saveMessage_frame(1) [OF failed]
    by (simp add: persistAndSendMessage_def tryCatch_def thenDo_def resolve_def)
qed

theorem persistAndSendMessage_outcomes_witness:
  "fst (saveMessage exampleConfig ''c1'' ''hello'' ''s1'' None exampleWorld) =
     Inr \<lparr>msg_id = ''u'', msg_connectionId = ''c1'', content = ''hello'',
          msg_timestamp = 1700000000000, msg_ttl = 1702592000, sessionId = ''s1'',
          metadata = None\<rparr>
   \<and> fst (persistAndSendMessage exampleConfig (connectEvent ''good'') ''c1'' ''hello'' ''s1'' None
          exampleWorld) =
       Inr (Some \<lparr>msg_id = ''u'', msg_connectionId = ''c1'', content = ''hello'',
          msg_timestamp = 1700000000000, msg_ttl = 1702592000, sessionId = ''s1'',
          metadata = None\<rparr>)
   \<and> \<lparr>msg_id = ''u'', msg_connectionId = ''c1'', content = ''hello'',
          msg_timestamp = 1700000000000, msg_ttl = 1702592000, sessionId = ''s1'',
          metadata = None\<rparr>
       \<in> set (messages (snd (persistAndSendMessage exampleConfig (connectEvent ''good'') ''c1''
                ''hello'' ''s1'' None exampleWorld)))
   \<and> fst (saveMessage exampleConfig ''c1'' ''hello'' ''s1'' None
          (registeredWorld\<lparr>storeFaults := [True]\<rparr>)) = Inl StoreException
   \<and> fst (persistAndSendMessage exampleConfig (connectEvent ''good'') ''c1'' ''hello'' ''s1'' None
          (registeredWorld\<lparr>storeFaults := [True]\<rparr>)) = Inr None
   \<and> connections (snd (persistAndSendMessage exampleConfig (connectEvent ''good'') ''c1'' ''hello''
          ''s1'' None (registeredWorld\<lparr>storeFaults := [True]\<rparr>))) =
       connections (registeredWorld\<lparr>storeFaults := [True]\<rparr>)"
proof -
  let ?m = "\<lparr>msg_id = ''u'', msg_connectionId = ''c1'', content = ''hello'',
          msg_timestamp = 1700000000000, msg_ttl = 1702592000, sessionId = ''s1'',
          metadata = None\<rparr>"
  have saved: "saveMessage exampleConfig ''c1'' ''hello'' ''s1'' None exampleWorld =
      (Inr ?m, snd (saveMessage exampleConfig ''c1'' ''hello'' ''s1'' None exampleWorld))"
    by (simp add: eval_defs registeredWorld_def)
  have sent: "fst (sendToClient exampleConfig (connectEvent ''good'') ''c1''
        (messagePayload ?m ''hello'' None)
        (snd (saveMessage exampleConfig ''c1'' ''hello'' ''s1'' None exampleWorld))) = Inr True"
    by (simp add: eval_defs registeredWorld_def)
  have failed: "saveMessage exampleConfig ''c1'' ''hello'' ''s1'' None
      (registeredWorld\<lparr>storeFaults := [True]\<rparr>) =
      (Inl StoreException,
       snd (saveMessage exampleConfig ''c1'' ''hello'' ''s1'' None
         (registeredWorld\<lparr>storeFaults := [True]\<rparr>)))"
    by (simp add: eval_defs registeredWorld_def)
  note first = persistAndSendMessage_outcomes
    [of exampleConfig "''c1''" "''hello''" "''s1''" None exampleWorld ?m
        "snd (saveMessage exampleConfig ''c1'' ''hello'' ''s1'' None exampleWorld)"
        "connectEvent ''good''", THEN conjunct1, rule_format, OF saved]
  note second = persistAndSendMessage_outcomes
    [of exampleConfig "''c1''" "''hello''" "''s1''" None "registeredWorld\<lparr>storeFaults := [True]\<rparr>"
        _ "snd (saveMessage exampleConfig ''c1'' ''hello'' ''s1'' None
             (registeredWorld\<lparr>storeFaults := [True]\<rparr>))"
        "connectEvent ''good''" StoreException, THEN conjunct2, rule_format, OF failed]
  have a: "fst (saveMessage exampleConfig ''c1'' ''hello'' ''s1'' None exampleWorld) = Inr ?m"
    using saved by (metis fst_conv)
  have b: "fst (saveMessage exampleConfig ''c1'' ''hello'' ''s1'' None
          (registeredWorld\<lparr>storeFaults := [True]\<rparr>)) = Inl StoreException"
    using failed by (metis fst_conv)
  show ?thesis
    using first second a b sent by simp
qed

text \<open>
  Claim C1 as stated fails: the message is saved, the delivery fails, and the call
  returns \<open>null\<close>.
\<close>

theorem persistAndSendMessage_null_after_persist_counterexample:
  "fst (saveMessage exampleConfig ''c1'' ''hello'' ''s1'' None
          (exampleWorld\<lparr>postToConnection := throttledAnswer\<rparr>)) =
     Inr \<lparr>msg_id = ''u'', msg_connectionId = ''c1'', content = ''hello'',
          msg_timestamp = 1700000000000, msg_ttl = 1702592000, sessionId = ''s1'',
          metadata = None\<rparr>
   \<and> fst (persistAndSendMessage exampleConfig (connectEvent ''good'') ''c1'' ''hello'' ''s1'' None
          (exampleWorld\<lparr>postToConnection := throttledAnswer\<rparr>)) = Inr None
   \<and> messages (snd (persistAndSendMessage exampleConfig (connectEvent ''good'') ''c1'' ''hello'' ''s1''
          None (exampleWorld\<lparr>postToConnection := throttledAnswer\<rparr>))) =
       [\<lparr>msg_id = ''u'', msg_connectionId = ''c1'', content = ''hello'',
         msg_timestamp = 1700000000000, msg_ttl = 1702592000, sessionId = ''s1'',
         metadata = None\<rparr>]"
  by (simp add: eval_defs throttledAnswer_def)

lemma addConnection_row:
  assumes "fst (addConnection C cid ud w) = Inr ()"
  shows "connections (snd (addConnection C cid ud w)) cid =
           Some \<lparr>connectionId = cid, timestamp = clock w, ttl = clock w div 1000 + 60 * 60 * 2,
                 userData = ud\<rparr>"
  using assms by (auto simp: addConnection_unfold Let_def split: list.splits if_splits)

text \<open>
  Claim C10. A successful \<open>addConnection\<close> leaves, for the connection id, exactly the
  row it built: its own timestamp, ttl and \<open>userData\<close>, whatever row the id had
  before. So after an authentication that succeeds, the row of the connection holds the
  \<open>userData\<close> of the middleware's call only (the request id it returns and the
  subject of the identity it returns), also when \<open>handleConnect\<close> had registered the
  connection before.
\<close>

theorem addConnection_replaces_row:
  "(fst (addConnection C cid ud w) = Inr () \<longrightarrow>
      connections (snd (addConnection C cid ud w)) cid =
        Some \<lparr>connectionId = cid, timestamp = clock w, ttl = clock w div 1000 + 60 * 60 * 2,
              userData = ud\<rparr>)
   \<and> (fst (webSocketAuthMiddleware C L ev w) = Inr resp \<and> statusCode resp = 200 \<longrightarrow>
      connections (snd (webSocketAuthMiddleware C L ev w)) (requestContext_connectionId ev) =
        Some \<lparr>connectionId = requestContext_connectionId ev, timestamp = clock w,
              ttl = clock w div 1000 + 60 * 60 * 2,
              userData = [(''requestId'', requestId resp),
                          (''userId'', Option.bind (user resp) (\<lambda>payload. map_of payload ''sub''))]\<rparr>)"
proof (intro conjI impI)
  assume "fst (addConnection C cid ud w) = Inr ()"
  then show "connections (snd (addConnection C cid ud w)) cid =
        Some \<lparr>connectionId = cid, timestamp = clock w, ttl = clock w div 1000 + 60 * 60 * 2,
              userData = ud\<rparr>"
    by (rule addConnection_row)
next
  let ?cid = "requestContext_connectionId ev"
  let ?token = "getCookie (cookieHeaderOf ev) (cookieName C)"
  assume ok: "fst (webSocketAuthMiddleware C L ev w) = Inr resp \<and> statusCode resp = 200"
  obtain rid w1 where rid: "requestIdFrom ev w = (Inr rid, w1)"
    and w1: "clock w1 = clock w"
    by (rule requestIdFrom_result)
  have not_rejected: False
    if "webSocketAuthMiddleware C L ev w =
        tryCatch (thenDo (removeConnection C ?cid) (\<lambda>_. resolve (rejection 401 msg)))
          (\<lambda>error. thenDo (removeConnection C ?cid)
             (\<lambda>_. resolve (rejection 500 ''Authentication failed''))) w2" for msg w2
    using remove_twice [where C = C and cid = ?cid and ra = "rejection 401 msg"
        and rb = "rejection 500 ''Authentication failed''" and w = w2] ok
    unfolding that [symmetric]
    by (cases "webSocketAuthMiddleware C L ev w") (auto simp: rejection_def split: sum.splits)
  have "?token \<noteq> None \<and> ?token \<noteq> Some []"
  proof (rule ccontr)
    assume "\<not> (?token \<noteq> None \<and> ?token \<noteq> Some [])"
    then have "?token = None \<or> ?token = Some []" by simp
    from not_rejected [OF middleware_missing [OF this rid]] show False .
  qed
  then obtain t where t: "?token = Some t" "t \<noteq> []" by auto
  obtain r w2 where v: "validateToken C L t w1 = (r, w2)"
    by (cases "validateToken C L t w1")
  have w2: "clock w2 = clock w"
    using v w1 by (auto simp: validateToken_def getJwks_unfold thenDo_def reject_def resolve_def
        split: option.splits sum.splits if_splits)
  show "connections (snd (webSocketAuthMiddleware C L ev w)) ?cid =
        Some \<lparr>connectionId = ?cid, timestamp = clock w, ttl = clock w div 1000 + 60 * 60 * 2,
              userData = [(''requestId'', requestId resp),
                          (''userId'', Option.bind (user resp) (\<lambda>payload. map_of payload ''sub''))]\<rparr>"
  proof (cases r)
    case (Inl e)
    with v have "validateToken C L t w1 = (Inl e, w2)" by simp
    from not_rejected [OF middleware_invalid [OF t rid this]] show ?thesis by simp
  next
    case (Inr payload)
    have mw: "webSocketAuthMiddleware C L ev w =
           tryCatch
             (thenDo
                (addConnection C ?cid
                   [(''requestId'', Some rid), (''userId'', map_of payload ''sub'')])
                (\<lambda>_. resolve
                   \<lparr>statusCode = 200, body = None, user = Some payload, requestId = Some rid\<rparr>))
             (\<lambda>error. thenDo (removeConnection C ?cid)
                (\<lambda>_. resolve (rejection 500 ''Authentication failed'')))
             w2"
      using middleware_valid [OF t rid] v Inr by simp
    show ?thesis
      using ok unfolding mw
      by (auto simp: tryCatch_def thenDo_def resolve_def addConnection_unfold
            removeConnection_unfold rejection_def Let_def w2
          split: list.splits if_splits)
  qed
qed

theorem addConnection_replaces_row_witness:
  "connections (registeredWorld\<lparr>clock := 1700000005000\<rparr>) ''c1'' =
     Some \<lparr>connectionId = ''c1'', timestamp = 1700000000000, ttl = 1700007200,
           userData = [(''requestId'', Some ''u'')]\<rparr>
   \<and> fst (addConnection exampleConfig ''c1'' [(''room'', Some ''lobby'')]
          (registeredWorld\<lparr>clock := 1700000005000\<rparr>)) = Inr ()
   \<and> connections (snd (addConnection exampleConfig ''c1'' [(''room'', Some ''lobby'')]
          (registeredWorld\<lparr>clock := 1700000005000\<rparr>))) ''c1'' =
       Some \<lparr>connectionId = ''c1'', timestamp = 1700000005000, ttl = 1700007205,
             userData = [(''room'', Some ''lobby'')]\<rparr>
   \<and> fst (webSocketAuthMiddleware exampleConfig exampleLibrary (connectEvent ''good'')
          (registeredWorld\<lparr>clock := 1700000005000\<rparr>)) =
       Inr \<lparr>statusCode = 200, body = None, user = Some [(''sub'', ''u1'')],
            requestId = Some ''uu''\<rparr>
   \<and> connections (snd (webSocketAuthMiddleware exampleConfig exampleLibrary (connectEvent ''good'')
          (registeredWorld\<lparr>clock := 1700000005000\<rparr>))) ''c1'' =
       Some \<lparr>connectionId = ''c1'', timestamp = 1700000005000, ttl = 1700007205,
             userData = [(''requestId'', Some ''uu''), (''userId'', Some ''u1'')]\<rparr>"
  using addConnection_replaces_row
    [of exampleConfig "''c1''" "[(''room'', Some ''lobby'')]"
        "registeredWorld\<lparr>clock := 1700000005000\<rparr>" exampleLibrary "connectEvent ''good''"
        "\<lparr>statusCode = 200, body = None, user = Some [(''sub'', ''u1'')],
            requestId = Some ''uu''\<rparr>"]
  by (simp add: eval_defs registeredWorld_def)

text \<open>
  Claim C8 fails on the code. Two messages of session \<open>s1\<close> are saved one second apart
  into a store that files new rows at the front of the index's order;
  \<open>getSessionMessages\<close> returns the later message first. The code does not sort, and
  \<open>sessionId-index\<close> has no sort key by which the store could.
\<close>

theorem getSessionMessages_newest_first:
  "fst (getSessionMessages exampleConfig ''s1'' 100 twoMessagesWorld) =
     Inr [\<lparr>msg_id = ''uu'', msg_connectionId = ''c1'', content = ''second'',
           msg_timestamp = 1700000001000, msg_ttl = 1702592001, sessionId = ''s1'',
           metadata = None\<rparr>,
          \<lparr>msg_id = ''u'', msg_connectionId = ''c1'', content = ''first'',
           msg_timestamp = 1700000000000, msg_ttl = 1702592000, sessionId = ''s1'',
           metadata = None\<rparr>]"
  by (simp add: eval_defs twoMessagesWorld_def)

end
